theory Spec2Isabelle
  imports Main "HOL-Library.Word" "HOL-Library.Signed_Division"
begin

unbundle bit_operations_syntax

section \<open>Byte slices and the error values of the header package\<close>

text \<open>
  A Go \<^verbatim>\<open>[]byte\<close> is modelled by the list of its bytes. A nil slice and an empty
  slice are both the empty list: \<^verbatim>\<open>len\<close>, \<^verbatim>\<open>bytes.Equal\<close> and the \<^verbatim>\<open>%X\<close> verb,
  the only operations \<^verbatim>\<open>types/header.go\<close> applies to a slice, do not tell them
  apart.
\<close>

type_synonym byte = "8 word"
type_synonym bytes = "byte list"

text \<open>\<^verbatim>\<open>type Hash = header.Hash\<close>, a byte slice.\<close>

type_synonym Hash = bytes

text \<open>\<^verbatim>\<open>bytes.Equal\<close> of the Go standard library: equal length and equal content.\<close>

definition bytes_Equal :: "bytes \<Rightarrow> bytes \<Rightarrow> bool" where
  "bytes_Equal a b = (a = b)"

text \<open>
  The verb \<^verbatim>\<open>%X\<close> of the Go standard library's \<^verbatim>\<open>fmt\<close> on a byte slice: two
  upper-case hexadecimal digits for every byte, high nibble first, nothing between
  the bytes.
\<close>

definition udigits :: string where
  "udigits = ''0123456789ABCDEF''"

definition fmt_byte_X :: "byte \<Rightarrow> string" where
  "fmt_byte_X c = [udigits ! unat (drop_bit 4 c), udigits ! unat (c AND 15)]"

definition fmt_X :: "bytes \<Rightarrow> string" where
  "fmt_X b = concat (map fmt_byte_X b)"

text \<open>
  Modelled from the spec: \<^verbatim>\<open>ErrNoProposerAddress\<close> is a package-level error value
  declared outside \<^verbatim>\<open>header.go\<close>; the spec calls it \<^verbatim>\<open>MissingProposerAddress\<close>, the
  error of a header whose proposer identity is absent. It is a value of its own,
  with nothing attached.

  \<^verbatim>\<open>VerifyError\<close> is \<^verbatim>\<open>header.VerifyError\<close> of go-header (the spec's
  \<^verbatim>\<open>ProposerMismatch\<close>), built in \<^verbatim>\<open>Verify\<close> with its \<^verbatim>\<open>Reason\<close> only, which is the
  message of \<^verbatim>\<open>fmt.Errorf\<close>. A Go \<^verbatim>\<open>error\<close> result is an \<open>error option\<close>, \<open>None\<close>
  for \<^verbatim>\<open>nil\<close>.
\<close>

datatype error = ErrNoProposerAddress | VerifyError (Reason: string)

section \<open>Fixed-width integers\<close>

text \<open>
  Go's integer conversions and the wrap-around of its signed 64-bit arithmetic, on
  mathematical integers: \<open>int64 x\<close> is the value an \<^verbatim>\<open>int64\<close> holds after a result
  \<open>x\<close> computed without bounds, \<open>int32\<close> and \<open>uint64\<close> are the conversions to
  those types. The fields \<^verbatim>\<open>Height\<close> and \<^verbatim>\<open>Time\<close> of a header are \<open>64 word\<close>;
  the conversion \<^verbatim>\<open>int64(x)\<close> of such a value is \<open>sint x\<close>.
\<close>

definition int64 :: "int \<Rightarrow> int" where
  "int64 x = signed_take_bit 63 x"

definition int32 :: "int \<Rightarrow> int" where
  "int32 x = signed_take_bit 31 x"

definition uint64 :: "int \<Rightarrow> int" where
  "uint64 x = take_bit 64 x"

section \<open>Timestamps of the Go standard library\<close>

text \<open>
  \<^verbatim>\<open>time.Time\<close> as \<^verbatim>\<open>time.Unix\<close> builds it: \<open>wall\<close> holds the nanoseconds within
  the second, \<open>ext\<close> the seconds since January 1 of year 1, \<open>loc\<close> the location
  used for display only.
\<close>

datatype Location = UTC | Local

record time_Time =
  wall :: int
  ext :: int
  loc :: Location

definition unixToInternal :: int where
  "unixToInternal = (1969 * 365 + 1969 div 4 - 1969 div 100 + 1969 div 400) * 86400"

text \<open>\<^verbatim>\<open>func unixTime(sec int64, nsec int32) Time\<close>\<close>

definition unixTime :: "int \<Rightarrow> int \<Rightarrow> time_Time" where
  "unixTime sec nsec =
     \<lparr>wall = uint64 nsec, ext = int64 (sec + unixToInternal), loc = Local\<rparr>"

text \<open>
  \<^verbatim>\<open>func Unix(sec int64, nsec int64) Time\<close>: a nanosecond count outside
  \<open>[0, 10\<^sup>9)\<close> is carried into the seconds; Go's \<^verbatim>\<open>/\<close> truncates towards zero
  (\<open>sdiv\<close>).
\<close>

definition time_Unix :: "int \<Rightarrow> int \<Rightarrow> time_Time" where
  "time_Unix sec nsec =
     (if nsec < 0 \<or> 10 ^ 9 \<le> nsec then
        (let n = nsec sdiv 10 ^ 9;
             sec1 = int64 (sec + n);
             nsec1 = int64 (nsec - int64 (n * 10 ^ 9))
         in if nsec1 < 0
            then unixTime (int64 (sec1 - 1)) (int32 (int64 (nsec1 + 10 ^ 9)))
            else unixTime sec1 (int32 nsec1))
      else unixTime sec (int32 nsec))"

text \<open>
  The instant a timestamp denotes, in nanoseconds since the Unix epoch
  (January 1, 1970 UTC), as an unbounded integer. The location is no part of it.
\<close>

definition unix_nanos :: "time_Time \<Rightarrow> int" where
  "unix_nanos t = (ext t - unixToInternal) * 10 ^ 9 + wall t"

section \<open>The vote of the consensus engine\<close>

text \<open>
  The types of \<^verbatim>\<open>cmtproto\<close> that \<^verbatim>\<open>MakeCometBFTVote\<close> fills in. \<^verbatim>\<open>Vote\<close> has the
  fields the struct literal of \<^verbatim>\<open>MakeCometBFTVote\<close> names; \<^verbatim>\<open>Height\<close> is an
  \<^verbatim>\<open>int64\<close>, \<^verbatim>\<open>Round\<close> and \<^verbatim>\<open>ValidatorIndex\<close> are \<^verbatim>\<open>int32\<close>.
\<close>

datatype SignedMsgType = UnknownType | PrevoteType | PrecommitType | ProposalType

record PartSetHeader =
  Total :: "32 word"
  Hash :: bytes

record BlockID =
  Hash :: bytes
  PartSetHeader :: PartSetHeader

record Vote =
  Type :: SignedMsgType
  Height :: int
  Round :: int
  BlockID :: BlockID
  Timestamp :: time_Time
  ValidatorAddress :: bytes
  ValidatorIndex :: int

section \<open>The data model\<close>

text \<open>
  Modelled from the spec: \<^verbatim>\<open>Version\<close> is declared outside \<^verbatim>\<open>header.go\<close>; the spec
  calls it the block/app version pair.
\<close>

record Version =
  Block :: "64 word"
  App :: "64 word"

record BaseHeader =
  Height :: "64 word"
  Time :: "64 word"
  ChainID :: string

record Header =
  BaseHeader :: BaseHeader
  Version :: Version
  LastHeaderHash :: Hash
  LastCommitHash :: Hash
  DataHash :: Hash
  ConsensusHash :: Hash
  AppHash :: Hash
  ValidatorHash :: Hash
  LastResultsHash :: Hash
  ProposerAddress :: bytes

section \<open>Accessors\<close>

text \<open>
  The methods of \<^verbatim>\<open>*Header\<close> on the header a non-nil receiver points to. The
  accessors \<^verbatim>\<open>ChainID\<close>, \<^verbatim>\<open>Height\<close> and \<^verbatim>\<open>Time\<close> carry the receiver's type in
  their names, the plain names being the fields'.
\<close>

definition Header_ChainID :: "Header \<Rightarrow> string" where
  "Header_ChainID h = ChainID (BaseHeader h)"

definition Header_Height :: "Header \<Rightarrow> 64 word" where
  "Header_Height h = BaseHeader.Height (BaseHeader h)"

definition LastHeader :: "Header \<Rightarrow> Hash" where
  "LastHeader h = LastHeaderHash h"

definition Header_Time :: "Header \<Rightarrow> time_Time" where
  "Header_Time h = time_Unix 0 (sint (Time (BaseHeader h)))"

section \<open>Validation and verification\<close>

text \<open>\<^verbatim>\<open>func (h *Header) Verify(untrstH *Header) error\<close>, both pointers non-nil.\<close>

definition Verify :: "Header \<Rightarrow> Header \<Rightarrow> error option" where
  "Verify h untrstH =
     (if \<not> bytes_Equal (ProposerAddress untrstH) (ProposerAddress h)
      then Some (VerifyError
        (''expected proposer ('' @ fmt_X (ProposerAddress h) @
         '') got ('' @ fmt_X (ProposerAddress untrstH) @ '')''))
      else None)"

text \<open>\<^verbatim>\<open>func (h *Header) ValidateBasic() error\<close>\<close>

definition ValidateBasic :: "Header \<Rightarrow> error option" where
  "ValidateBasic h =
     (if length (ProposerAddress h) = 0 then Some ErrNoProposerAddress else None)"

text \<open>\<^verbatim>\<open>func (h *Header) Validate() error\<close>\<close>

definition Validate :: "Header \<Rightarrow> error option" where
  "Validate h = ValidateBasic h"

section \<open>The consensus vote\<close>

text \<open>
  \<^verbatim>\<open>MakeCometBFTVote\<close> calls two functions that are not in \<^verbatim>\<open>header.go\<close>: the
  method \<^verbatim>\<open>Hash\<close> of the header and \<^verbatim>\<open>cmtypes.VoteSignBytes\<close> of the consensus
  engine. Both are parameters here, \<open>hash\<close> and \<open>voteSignBytes\<close>.

  Modelled from the spec: \<^verbatim>\<open>Hash()\<close> is a deterministic function of the fields of
  the header, and the vote-sign-bytes algorithm a deterministic function of the
  chain ID and the vote; neither changes the header.

  \<open>MakeCometBFTVote_vote\<close> is the struct literal bound to \<^verbatim>\<open>vote\<close>.
\<close>

definition MakeCometBFTVote_vote :: "(Header \<Rightarrow> Hash) \<Rightarrow> Header \<Rightarrow> Vote" where
  "MakeCometBFTVote_vote hash h =
     \<lparr>Type = PrecommitType,
      Vote.Height = sint (Header_Height h),
      Round = 0,
      BlockID = \<lparr>BlockID.Hash = hash h,
                 PartSetHeader = \<lparr>Total = 0, PartSetHeader.Hash = []\<rparr>\<rparr>,
      Timestamp = Header_Time h,
      ValidatorAddress = ProposerAddress h,
      ValidatorIndex = 0\<rparr>"

definition MakeCometBFTVote ::
    "(Header \<Rightarrow> Hash) \<Rightarrow> (string \<Rightarrow> Vote \<Rightarrow> bytes) \<Rightarrow> Header \<Rightarrow> bytes" where
  "MakeCometBFTVote hash voteSignBytes h =
     (let vote = MakeCometBFTVote_vote hash h;
          chainID = Header_ChainID h;
          consensusVoteBytes = voteSignBytes chainID vote
      in consensusVoteBytes)"

section \<open>Method calls through pointers\<close>

text \<open>
  Every method of the file has a pointer receiver. A pointer is \<open>None\<close> for \<^verbatim>\<open>nil\<close>
  or the address of a header in the store; a call returns its result, or panics
  where it reads a field through a nil pointer, and returns the store it leaves
  behind. No method of the file assigns to a field or to an element of a slice:
  each reads the headers its pointers refer to, and leaves the store as it is.
  \<^verbatim>\<open>IsZero\<close> compares the pointer and reads nothing.
\<close>

type_synonym addr = nat
type_synonym store = "addr \<Rightarrow> Header"
type_synonym ptr = "addr option"

datatype 'a outcome = Returns 'a | NilDereference

definition IsZero :: "store \<Rightarrow> ptr \<Rightarrow> bool outcome \<times> store" where
  "IsZero s h = (Returns (h = None), s)"

definition ptr_ChainID :: "store \<Rightarrow> ptr \<Rightarrow> string outcome \<times> store" where
  "ptr_ChainID s h =
     (case h of None \<Rightarrow> (NilDereference, s)
      | Some a \<Rightarrow> (Returns (Header_ChainID (s a)), s))"

definition ptr_Height :: "store \<Rightarrow> ptr \<Rightarrow> 64 word outcome \<times> store" where
  "ptr_Height s h =
     (case h of None \<Rightarrow> (NilDereference, s)
      | Some a \<Rightarrow> (Returns (Header_Height (s a)), s))"

definition ptr_LastHeader :: "store \<Rightarrow> ptr \<Rightarrow> Hash outcome \<times> store" where
  "ptr_LastHeader s h =
     (case h of None \<Rightarrow> (NilDereference, s)
      | Some a \<Rightarrow> (Returns (LastHeader (s a)), s))"

definition ptr_Time :: "store \<Rightarrow> ptr \<Rightarrow> time_Time outcome \<times> store" where
  "ptr_Time s h =
     (case h of None \<Rightarrow> (NilDereference, s)
      | Some a \<Rightarrow> (Returns (Header_Time (s a)), s))"

definition ptr_Verify :: "store \<Rightarrow> ptr \<Rightarrow> ptr \<Rightarrow> error option outcome \<times> store" where
  "ptr_Verify s h untrstH =
     (case untrstH of None \<Rightarrow> (NilDereference, s)
      | Some u \<Rightarrow>
          (case h of None \<Rightarrow> (NilDereference, s)
           | Some a \<Rightarrow> (Returns (Verify (s a) (s u)), s)))"

definition ptr_ValidateBasic :: "store \<Rightarrow> ptr \<Rightarrow> error option outcome \<times> store" where
  "ptr_ValidateBasic s h =
     (case h of None \<Rightarrow> (NilDereference, s)
      | Some a \<Rightarrow> (Returns (ValidateBasic (s a)), s))"

definition ptr_Validate :: "store \<Rightarrow> ptr \<Rightarrow> error option outcome \<times> store" where
  "ptr_Validate s h = ptr_ValidateBasic s h"

definition ptr_MakeCometBFTVote ::
    "(Header \<Rightarrow> Hash) \<Rightarrow> (string \<Rightarrow> Vote \<Rightarrow> bytes) \<Rightarrow> store \<Rightarrow> ptr \<Rightarrow> bytes outcome \<times> store" where
  "ptr_MakeCometBFTVote hash voteSignBytes s h =
     (case h of None \<Rightarrow> (NilDereference, s)
      | Some a \<Rightarrow> (Returns (MakeCometBFTVote hash voteSignBytes (s a)), s))"

section \<open>Example values\<close>

text \<open>
  The zero value \<^verbatim>\<open>Header{}\<close>, which \<^verbatim>\<open>new(Header)\<close> points to, and the header of
  the spec's examples: height 5, chain \<^verbatim>\<open>rollkit-test\<close>, a proposer address of
  twenty bytes \<^verbatim>\<open>0xAA\<close>.
\<close>

definition zero_Header :: Header where
  "zero_Header =
     \<lparr>BaseHeader = \<lparr>Height = 0, Time = 0, ChainID = []\<rparr>,
      Version = \<lparr>Block = 0, App = 0\<rparr>,
      LastHeaderHash = [], LastCommitHash = [], DataHash = [], ConsensusHash = [],
      AppHash = [], ValidatorHash = [], LastResultsHash = [], ProposerAddress = []\<rparr>"

definition example_Header :: Header where
  "example_Header =
     zero_Header
       \<lparr>BaseHeader := \<lparr>Height = 5, Time = 1700000000123456789, ChainID = ''rollkit-test''\<rparr>,
        ProposerAddress := replicate 20 0xAA\<rparr>"

text \<open>
  Stand-ins for the two functions outside the file, to evaluate
  \<^verbatim>\<open>MakeCometBFTVote\<close> on an example: a digest that is 32 zero bytes, and an
  encoder that returns the validator address of the vote. No general fact
  rests on them.
\<close>

definition example_hash :: "Header \<Rightarrow> Hash" where
  "example_hash h = replicate 32 0"

definition example_voteSignBytes :: "string \<Rightarrow> Vote \<Rightarrow> bytes" where
  "example_voteSignBytes chainID vote = ValidatorAddress vote"

section \<open>Facts about the hexadecimal rendering\<close>

lemma distinct_udigits: "distinct udigits"
  by (simp add: udigits_def)

lemma length_udigits: "length udigits = 16"
  by (simp add: udigits_def)

lemma high_nibble_less: "unat (drop_bit 4 (c::byte)) < 16"
proof -
  have "unat c < 256" using unsigned_less [of c, where 'a = nat] by simp
  then have "unat c div 16 < 16" by simp
  moreover have "unat (drop_bit 4 c) = drop_bit 4 (unat c)"
    by (rule unat_drop_bit_eq)
  moreover have "drop_bit 4 (unat c) = unat c div 16"
    by (simp add: drop_bit_eq_div)
  ultimately show ?thesis by simp
qed

lemma and_15_take_bit: "(c::byte) AND 15 = take_bit 4 c"
  by (simp add: take_bit_eq_mask mask_eq_exp_minus_1)

lemma low_nibble_less: "unat ((c::byte) AND 15) < 16"
proof -
  have "unat (take_bit 4 c) < 2 ^ 4"
    unfolding unsigned_take_bit_eq by (rule take_bit_nat_less_exp)
  then show ?thesis by (simp add: and_15_take_bit)
qed

lemma nibbles_eq:
  assumes "drop_bit 4 (c::byte) = drop_bit 4 d" and "c AND 15 = d AND 15"
  shows "c = d"
proof -
  have "c = push_bit 4 (drop_bit 4 c) + take_bit 4 c" by (simp add: bits_ident)
  also have "\<dots> = push_bit 4 (drop_bit 4 d) + take_bit 4 d"
    using assms by (simp add: and_15_take_bit)
  also have "\<dots> = d" by (simp add: bits_ident)
  finally show ?thesis .
qed

lemma udigits_nth_inj: "i < 16 \<Longrightarrow> j < 16 \<Longrightarrow> udigits ! i = udigits ! j \<Longrightarrow> i = j"
  using distinct_udigits length_udigits by (simp add: nth_eq_iff_index_eq)

lemma fmt_byte_X_inj: "fmt_byte_X c = fmt_byte_X d \<Longrightarrow> c = d"
proof -
  assume "fmt_byte_X c = fmt_byte_X d"
  then have h: "udigits ! unat (drop_bit 4 c) = udigits ! unat (drop_bit 4 d)"
    and l: "udigits ! unat (c AND 15) = udigits ! unat (d AND 15)"
    by (simp_all add: fmt_byte_X_def)
  from h have "unat (drop_bit 4 c) = unat (drop_bit 4 d)"
    by (rule udigits_nth_inj [OF high_nibble_less high_nibble_less])
  moreover from l have "unat (c AND 15) = unat (d AND 15)"
    by (rule udigits_nth_inj [OF low_nibble_less low_nibble_less])
  ultimately have "drop_bit 4 c = drop_bit 4 d" and "c AND 15 = d AND 15"
    by (simp_all add: word_unat_eq_iff)
  then show "c = d" by (rule nibbles_eq)
qed

lemma paren_notin: "i < 16 \<Longrightarrow> udigits ! i \<noteq> CHR '')''"
proof
  assume "i < 16" and "udigits ! i = CHR '')''"
  then have "CHR '')'' \<in> set udigits"
    using length_udigits by (metis nth_mem)
  then show False by (simp add: udigits_def)
qed

lemma paren_notin_fmt_byte_X: "CHR '')'' \<notin> set (fmt_byte_X c)"
proof -
  have "udigits ! unat (drop_bit 4 c) \<noteq> CHR '')''"
    by (rule paren_notin [OF high_nibble_less])
  moreover have "udigits ! unat (c AND 15) \<noteq> CHR '')''"
    by (rule paren_notin [OF low_nibble_less])
  ultimately show ?thesis
    unfolding fmt_byte_X_def by simp
qed

lemma paren_notin_fmt_X: "CHR '')'' \<notin> set (fmt_X b)"
  by (auto simp: fmt_X_def paren_notin_fmt_byte_X)

lemma fmt_X_inj: "fmt_X a = fmt_X b \<Longrightarrow> a = b"
proof (induction a arbitrary: b)
  case Nil
  then show ?case by (cases b) (simp_all add: fmt_X_def fmt_byte_X_def)
next
  case (Cons x a)
  then show ?case
  proof (cases b)
    case Nil
    with Cons.prems show ?thesis by (simp add: fmt_X_def fmt_byte_X_def)
  next
    case (Cons y b')
    with Cons.prems have "fmt_byte_X x @ fmt_X a = fmt_byte_X y @ fmt_X b'"
      by (simp add: fmt_X_def)
    moreover have "length (fmt_byte_X x) = length (fmt_byte_X y)"
      by (simp add: fmt_byte_X_def)
    ultimately have "fmt_byte_X x = fmt_byte_X y" and "fmt_X a = fmt_X b'"
      by simp_all
    with Cons.IH Cons show ?thesis by (simp add: fmt_byte_X_inj)
  qed
qed

lemma split_unique:
  "c \<notin> set xs \<Longrightarrow> c \<notin> set xs' \<Longrightarrow> xs @ c # ys = xs' @ c # ys' \<Longrightarrow> xs = xs' \<and> ys = ys'"
proof (induction xs arbitrary: xs')
  case Nil
  then show ?case by (cases xs') auto
next
  case (Cons x xs)
  then show ?case by (cases xs') auto
qed

section \<open>Facts about the timestamp\<close>

lemma int64_id: "- (2 ^ 63) \<le> x \<Longrightarrow> x < 2 ^ 63 \<Longrightarrow> int64 x = x"
  unfolding int64_def by (rule signed_take_bit_int_eq_self)

lemma int32_id: "- (2 ^ 31) \<le> x \<Longrightarrow> x < 2 ^ 31 \<Longrightarrow> int32 x = x"
  unfolding int32_def by (rule signed_take_bit_int_eq_self)

lemma uint64_id: "0 \<le> x \<Longrightarrow> x < 2 ^ 64 \<Longrightarrow> uint64 x = x"
  unfolding uint64_def by (simp add: take_bit_int_eq_self)

lemma unixToInternal_eq: "unixToInternal = 62135596800"
  by (simp add: unixToInternal_def)

lemma unixTime_nanos:
  assumes "- (2 ^ 62) \<le> sec" "sec < 2 ^ 62" "0 \<le> nsec" "nsec < 10 ^ 9"
  shows "unix_nanos (unixTime sec nsec) = sec * 10 ^ 9 + nsec"
    and "wall (unixTime sec nsec) = nsec"
    and "loc (unixTime sec nsec) = Local"
proof -
  have w: "uint64 nsec = nsec" using assms by (intro uint64_id) simp_all
  have e: "int64 (sec + unixToInternal) = sec + unixToInternal"
    using assms by (intro int64_id) (simp_all add: unixToInternal_eq)
  show "unix_nanos (unixTime sec nsec) = sec * 10 ^ 9 + nsec"
    by (simp add: unix_nanos_def unixTime_def w e)
  show "wall (unixTime sec nsec) = nsec" by (simp add: unixTime_def w)
  show "loc (unixTime sec nsec) = Local" by (simp add: unixTime_def)
qed

lemma sdiv_bounds:
  fixes n :: int
  defines "q \<equiv> n sdiv 10 ^ 9"
  shows "\<bar>n - q * 10 ^ 9\<bar> < 10 ^ 9" and "0 \<le> n \<Longrightarrow> 0 \<le> n - q * 10 ^ 9"
    and "n \<le> 0 \<Longrightarrow> n - q * 10 ^ 9 \<le> 0"
proof -
  have r: "n - q * 10 ^ 9 = n smod 10 ^ 9"
    unfolding q_def by (rule minus_sdiv_mult_eq_smod)
  have "n smod 10 ^ 9 \<in> {- \<bar>10 ^ 9\<bar> + 1..\<bar>10 ^ 9\<bar> - 1}"
    by (rule smod_int_range) simp
  then show "\<bar>n - q * 10 ^ 9\<bar> < 10 ^ 9" unfolding r by (simp add: abs_less_iff)
  show "0 \<le> n \<Longrightarrow> 0 \<le> n - q * 10 ^ 9"
    unfolding r by (rule smod_int_compares) simp_all
  show "n \<le> 0 \<Longrightarrow> n - q * 10 ^ 9 \<le> 0"
    unfolding r by (rule smod_int_compares) simp_all
qed

lemma time_Unix_0:
  assumes lo: "- (2 ^ 63) \<le> n" and hi: "n < 2 ^ 63"
  shows "unix_nanos (time_Unix 0 n) = n \<and> 0 \<le> wall (time_Unix 0 n)
    \<and> wall (time_Unix 0 n) < 10 ^ 9 \<and> loc (time_Unix 0 n) = Local"
proof (cases "n < 0 \<or> 10 ^ 9 \<le> n")
  case False
  then have n: "0 \<le> n" "n < 10 ^ 9" by simp_all
  then have "int32 n = n" by (intro int32_id) simp_all
  moreover have "time_Unix 0 n = unixTime 0 (int32 n)"
    using False by (simp add: time_Unix_def)
  ultimately have "time_Unix 0 n = unixTime 0 n" by simp
  then show ?thesis using unixTime_nanos [of 0 n] n by simp
next
  case True
  define q where "q = n sdiv 10 ^ 9"
  define r where "r = n - q * 10 ^ 9"
  have rb: "\<bar>r\<bar> < 10 ^ 9"
    unfolding r_def q_def by (rule sdiv_bounds(1))
  have rpos: "0 \<le> r" if "0 \<le> n"
    unfolding r_def q_def using that by (rule sdiv_bounds(2))
  have rneg: "r \<le> 0" if "n \<le> 0"
    unfolding r_def q_def using that by (rule sdiv_bounds(3))
  have qr: "q * 10 ^ 9 = n - r" by (simp add: r_def)
  have qb: "- (2 ^ 62) < q" "q < 2 ^ 62 - 1"
    using qr rb lo hi by simp_all
  have m: "int64 (q * 10 ^ 9) = q * 10 ^ 9"
  proof (rule int64_id)
    show "- (2 ^ 63) \<le> q * 10 ^ 9" using qr rb lo hi rpos rneg by (cases "0 \<le> n") simp_all
    show "q * 10 ^ 9 < 2 ^ 63" using qr rb lo hi rpos rneg by (cases "0 \<le> n") simp_all
  qed
  have s1: "int64 q = q" using qb by (intro int64_id) simp_all
  have n1: "int64 (n - q * 10 ^ 9) = r"
    unfolding r_def [symmetric] using rb by (intro int64_id) simp_all
  have tu: "time_Unix 0 n =
      (if r < 0 then unixTime (int64 (q - 1)) (int32 (int64 (r + 10 ^ 9)))
       else unixTime q (int32 r))"
    using True m s1 n1 unfolding q_def r_def by (simp add: time_Unix_def Let_def)
  show ?thesis
  proof (cases "r < 0")
    case True
    have a: "int64 (q - 1) = q - 1" using qb by (intro int64_id) simp_all
    have b: "int64 (r + 10 ^ 9) = r + 10 ^ 9" using rb by (intro int64_id) simp_all
    have c: "int32 (r + 10 ^ 9) = r + 10 ^ 9" using rb True by (intro int32_id) simp_all
    have "time_Unix 0 n = unixTime (q - 1) (r + 10 ^ 9)"
      using True a b c unfolding tu by simp
    moreover have "(q - 1) * 10 ^ 9 + (r + 10 ^ 9) = n"
      using qr by (simp add: algebra_simps)
    ultimately show ?thesis
      using unixTime_nanos [of "q - 1" "r + 10 ^ 9"] qb rb True by simp
  next
    case False
    have c: "int32 r = r" using rb False by (intro int32_id) simp_all
    have "time_Unix 0 n = unixTime q r" using False c unfolding tu by simp
    moreover have "q * 10 ^ 9 + r = n" using qr by simp
    ultimately show ?thesis
      using unixTime_nanos [of q r] qb rb False by simp
  qed
qed

lemma sint_eq_uint_64: "unat (w :: 64 word) < 2 ^ 63 \<Longrightarrow> sint w = uint w"
proof -
  assume "unat w < 2 ^ 63"
  then have "int (unat w) < int (2 ^ 63)" by (simp only: of_nat_less_iff)
  then have "uint w < 2 ^ 63" by simp
  moreover have "- (2 ^ 63) \<le> uint w"
  proof (rule order_trans)
    show "- (2 ^ 63) \<le> (0 :: int)" by simp
    show "0 \<le> uint w" by simp
  qed
  ultimately have "signed_take_bit 63 (uint w) = uint w"
    by (intro signed_take_bit_int_eq_self)
  then show ?thesis by (simp add: sint_uint)
qed

lemma sint_64_high:
  assumes "2 ^ 63 \<le> unat (w :: 64 word)"
  shows "sint w = uint w - 2 ^ 64"
proof -
  from assms have "int (2 ^ 63) \<le> int (unat w)" by (simp only: of_nat_le_iff)
  then have lo: "2 ^ 63 \<le> uint w" by simp
  have hi: "uint w < 2 ^ 64" using uint_lt2p [of w] by simp
  have "take_bit (Suc 63) (uint w - 2 ^ 64) = take_bit (Suc 63) (uint w)"
    by (simp add: take_bit_eq_mod)
  then have "signed_take_bit 63 (uint w) = signed_take_bit 63 (uint w - 2 ^ 64)"
    by (simp only: signed_take_bit_eq_iff_take_bit_eq)
  also have "\<dots> = uint w - 2 ^ 64"
    using lo hi by (intro signed_take_bit_int_eq_self) simp_all
  finally show ?thesis by (simp add: sint_uint)
qed

lemma sint_inj_64: "sint (v :: 64 word) = sint w \<Longrightarrow> v = w"
  by (rule signed_word_eqI)

text \<open>
  For every value of the field \<^verbatim>\<open>Time\<close>, \<^verbatim>\<open>Time()\<close> denotes the instant that is
  the field read as a signed 64-bit count of nanoseconds, with the nanoseconds
  within the second normalised and the location \<^verbatim>\<open>Local\<close>.
\<close>

lemma Header_Time_nanos_sint:
  "unix_nanos (Header_Time h) = sint (Time (BaseHeader h))
   \<and> 0 \<le> wall (Header_Time h) \<and> wall (Header_Time h) < 10 ^ 9
   \<and> loc (Header_Time h) = Local"
proof -
  have "- (2 ^ 63) \<le> sint (Time (BaseHeader h))"
    using sint_ge [of "Time (BaseHeader h)"] by simp
  moreover have "sint (Time (BaseHeader h)) < 2 ^ 63"
    using sint_lt [of "Time (BaseHeader h)"] by simp
  ultimately show ?thesis
    unfolding Header_Time_def by (rule time_Unix_0)
qed

text \<open>
  C4: for a header whose \<^verbatim>\<open>Time\<close> field \<open>t\<close> is below \<open>2\<^sup>6\<^sup>3\<close>, the timestamp
  \<^verbatim>\<open>Time()\<close> returns denotes exactly the instant \<open>t\<close> nanoseconds after the Unix
  epoch: nothing is truncated (the nanoseconds within the second are kept, in
  \<open>[0, 10\<^sup>9)\<close>) and the instant is not shifted by a time zone (the location,
  \<^verbatim>\<open>Local\<close>, is no part of the instant).
\<close>

theorem Header_Time_exact:
  "unat (Time (BaseHeader h)) < 2 ^ 63 \<Longrightarrow>
     unix_nanos (Header_Time h) = uint (Time (BaseHeader h))
     \<and> 0 \<le> wall (Header_Time h) \<and> wall (Header_Time h) < 10 ^ 9
     \<and> loc (Header_Time h) = Local"
  using Header_Time_nanos_sint [of h] by (simp add: sint_eq_uint_64)

text \<open>
  C4, at the example header, whose \<^verbatim>\<open>Time\<close> is 1700000000123456789: the
  timestamp is that many nanoseconds after the epoch.
\<close>

theorem Header_Time_exact_witness:
  "unat (Time (BaseHeader example_Header)) < 2 ^ 63
   \<and> unix_nanos (Header_Time example_Header) = 1700000000123456789
   \<and> wall (Header_Time example_Header) < 10 ^ 9"
proof -
  have h: "unat (Time (BaseHeader example_Header)) < 2 ^ 63"
    by (simp add: example_Header_def)
  from Header_Time_exact [OF h] h show ?thesis
    by (simp add: example_Header_def)
qed

text \<open>
  Outside that range the conversion to \<^verbatim>\<open>int64\<close> wraps: a \<^verbatim>\<open>Time\<close> of \<open>2\<^sup>6\<^sup>3\<close>
  yields an instant \<open>2\<^sup>6\<^sup>3\<close> nanoseconds before the epoch.
\<close>

lemma Header_Time_out_of_range:
  "unix_nanos (Header_Time (zero_Header\<lparr>BaseHeader := \<lparr>Height = 0, Time = 2 ^ 63, ChainID = []\<rparr>\<rparr>))
   = - (2 ^ 63)"
  using Header_Time_nanos_sint
    [of "zero_Header\<lparr>BaseHeader := \<lparr>Height = 0, Time = 2 ^ 63, ChainID = []\<rparr>\<rparr>"]
  by simp

section \<open>Trust-continuity verification\<close>

lemma Verify_unfold:
  "Verify t c =
     (if ProposerAddress t = ProposerAddress c then None
      else Some (VerifyError
        (''expected proposer ('' @ fmt_X (ProposerAddress t) @
         '') got ('' @ fmt_X (ProposerAddress c) @ '')'')))"
  by (auto simp: Verify_def bytes_Equal_def)


text \<open>The spec's example 3, on two-byte addresses.\<close>

lemma Verify_example_mismatch:
  "Verify (example_Header\<lparr>ProposerAddress := [0xAA, 0x01]\<rparr>)
          (example_Header\<lparr>ProposerAddress := [0xBB, 0xC2]\<rparr>)
   = Some (VerifyError ''expected proposer (AA01) got (BBC2)'')"
  by (simp add: Verify_unfold fmt_X_def fmt_byte_X_def udigits_def drop_bit_eq_div)

text \<open>
  The error loses nothing of the two addresses: both can be read back from its
  reason, since the hexadecimal rendering is injective and contains no
  parenthesis.
\<close>

lemma Verify_error_determines_addresses:
  assumes "Verify t c = Some e" and "Verify t' c' = Some e"
  shows "ProposerAddress t = ProposerAddress t' \<and> ProposerAddress c = ProposerAddress c'"
proof -
  let ?m = "\<lambda>a b. ''expected proposer ('' @ fmt_X a @ '') got ('' @ fmt_X b @ '')''"
  from assms have "?m (ProposerAddress t) (ProposerAddress c)
      = ?m (ProposerAddress t') (ProposerAddress c')"
    by (auto simp: Verify_unfold split: if_splits)
  then have "fmt_X (ProposerAddress t) @ CHR '')'' # ('' got ('' @ fmt_X (ProposerAddress c) @ '')'')
      = fmt_X (ProposerAddress t') @ CHR '')'' # ('' got ('' @ fmt_X (ProposerAddress c') @ '')'')"
    by simp
  then have "fmt_X (ProposerAddress t) = fmt_X (ProposerAddress t')
      \<and> '' got ('' @ fmt_X (ProposerAddress c) @ '')'' = '' got ('' @ fmt_X (ProposerAddress c') @ '')''"
    by (rule split_unique [OF paren_notin_fmt_X paren_notin_fmt_X])
  then show ?thesis by (simp add: fmt_X_inj)
qed

text \<open>
  C10: \<^verbatim>\<open>Verify\<close> checks neither the chain nor the version nor the link to the
  previous header. When the proposer addresses of \<open>t\<close> and \<open>c\<close> are equal,
  \<^verbatim>\<open>Verify(t, c)\<close> succeeds, and it still succeeds after the base header (chain
  ID, height, time), the version and the last header hash of either header are
  replaced by any values, equal or different.
\<close>

theorem Verify_ignores_chain_identity:
  "ProposerAddress t = ProposerAddress c \<Longrightarrow>
     Verify t c = None
     \<and> Verify (t\<lparr>BaseHeader := bt, Version := vt, LastHeaderHash := lt\<rparr>)
               (c\<lparr>BaseHeader := bc, Version := vc, LastHeaderHash := lc\<rparr>) = None"
  by (simp add: Verify_unfold)

text \<open>
  C10, at the example header and a candidate of another chain, another version
  and another last header hash, with the same proposer: the candidate is
  accepted.
\<close>

theorem Verify_ignores_chain_identity_witness:
  "ChainID (BaseHeader example_Header) \<noteq>
     ChainID (BaseHeader (example_Header
       \<lparr>BaseHeader := \<lparr>Height = 5, Time = 0, ChainID = ''other-chain''\<rparr>,
        Version := \<lparr>Block = 2, App = 3\<rparr>, LastHeaderHash := [1]\<rparr>))
   \<and> Version example_Header \<noteq> \<lparr>Block = 2, App = 3\<rparr>
   \<and> LastHeaderHash example_Header \<noteq> [1]
   \<and> Verify example_Header
        (example_Header
          \<lparr>BaseHeader := \<lparr>Height = 5, Time = 0, ChainID = ''other-chain''\<rparr>,
           Version := \<lparr>Block = 2, App = 3\<rparr>, LastHeaderHash := [1]\<rparr>) = None"
  using Verify_ignores_chain_identity
    [of example_Header "example_Header
          \<lparr>BaseHeader := \<lparr>Height = 5, Time = 0, ChainID = ''other-chain''\<rparr>,
           Version := \<lparr>Block = 2, App = 3\<rparr>, LastHeaderHash := [1]\<rparr>"]
  by (simp add: example_Header_def zero_Header_def)

section \<open>Structural validation\<close>

text \<open>
  C2: \<^verbatim>\<open>ValidateBasic(h)\<close> returns \<^verbatim>\<open>ErrNoProposerAddress\<close> exactly when the
  proposer address of \<open>h\<close> has length zero, and \<^verbatim>\<open>nil\<close> exactly when it is not
  empty; the result does not change when every other field of \<open>h\<close> (base header
  with height, time and chain ID, version, all hashes) is replaced by any value.
\<close>

theorem ValidateBasic_missing_proposer:
  "(ValidateBasic h = Some ErrNoProposerAddress \<longleftrightarrow> length (ProposerAddress h) = 0)
   \<and> (ValidateBasic h = None \<longleftrightarrow> ProposerAddress h \<noteq> [])
   \<and> ValidateBasic
        (h\<lparr>BaseHeader := b, Version := v, LastHeaderHash := h1, LastCommitHash := h2,
           DataHash := h3, ConsensusHash := h4, AppHash := h5, ValidatorHash := h6,
           LastResultsHash := h7\<rparr>)
      = ValidateBasic h"
  by (simp add: ValidateBasic_def)

text \<open>The spec's examples 1 and 2.\<close>

lemma ValidateBasic_example_ok: "ValidateBasic example_Header = None"
  by (simp add: ValidateBasic_def example_Header_def)

lemma ValidateBasic_example_missing:
  "ValidateBasic (example_Header\<lparr>ProposerAddress := []\<rparr>) = Some ErrNoProposerAddress"
  by (simp add: ValidateBasic_def)

text \<open>
  C9: \<^verbatim>\<open>Validate\<close> returns what \<^verbatim>\<open>ValidateBasic\<close> returns, on every header, and
  so does the call through any pointer, nil included (both panic there).
\<close>

theorem Validate_is_ValidateBasic:
  "Validate h = ValidateBasic h \<and> ptr_Validate s p = ptr_ValidateBasic s p"
  by (simp add: Validate_def ptr_Validate_def)

section \<open>The vote built by MakeCometBFTVote\<close>

text \<open>
  C3, as stated, fails on the height: the vote's height is an \<^verbatim>\<open>int64\<close>, and for
  the header height \<open>2\<^sup>6\<^sup>3 = 9223372036854775808\<close> the conversion
  \<^verbatim>\<open>int64(h.Height())\<close> gives \<open>- 9223372036854775808\<close>, which is not the header
  height.
\<close>

theorem MakeCometBFTVote_height_counterexample:
  "Vote.Height (MakeCometBFTVote_vote example_hash
      (zero_Header\<lparr>BaseHeader := \<lparr>Height = 9223372036854775808, Time = 0, ChainID = []\<rparr>\<rparr>))
     = - 9223372036854775808
   \<and> uint (Header_Height
      (zero_Header\<lparr>BaseHeader := \<lparr>Height = 9223372036854775808, Time = 0, ChainID = []\<rparr>\<rparr>))
     = 9223372036854775808"
  by (simp add: MakeCometBFTVote_vote_def Header_Height_def)

text \<open>
  C3, amended: \<^verbatim>\<open>MakeCometBFTVote(h)\<close> returns the vote-sign-bytes, under the
  chain ID of \<open>h\<close>, of the vote with type precommit, height the header height
  converted to \<^verbatim>\<open>int64\<close>, round 0, block identifier with hash \<^verbatim>\<open>h.Hash()\<close> and
  the empty part-set header, timestamp \<^verbatim>\<open>h.Time()\<close>, validator address the
  proposer address of \<open>h\<close>, and validator index 0. The vote's height is the
  header height when that is below \<open>2\<^sup>6\<^sup>3\<close>, and the header height minus
  \<open>2\<^sup>6\<^sup>4\<close> otherwise.
\<close>

theorem MakeCometBFTVote_builds_vote:
  "MakeCometBFTVote hash voteSignBytes h =
     voteSignBytes (Header_ChainID h)
       \<lparr>Type = PrecommitType,
        Vote.Height = sint (Header_Height h),
        Round = 0,
        BlockID = \<lparr>BlockID.Hash = hash h,
                   PartSetHeader = \<lparr>Total = 0, PartSetHeader.Hash = []\<rparr>\<rparr>,
        Timestamp = Header_Time h,
        ValidatorAddress = ProposerAddress h,
        ValidatorIndex = 0\<rparr>
   \<and> (unat (Header_Height h) < 2 ^ 63 \<longrightarrow>
        Vote.Height (MakeCometBFTVote_vote hash h) = uint (Header_Height h))
   \<and> (2 ^ 63 \<le> unat (Header_Height h) \<longrightarrow>
        Vote.Height (MakeCometBFTVote_vote hash h) = uint (Header_Height h) - 2 ^ 64)"
proof (intro conjI impI)
  show "MakeCometBFTVote hash voteSignBytes h =
     voteSignBytes (Header_ChainID h)
       \<lparr>Type = PrecommitType,
        Vote.Height = sint (Header_Height h),
        Round = 0,
        BlockID = \<lparr>BlockID.Hash = hash h,
                   PartSetHeader = \<lparr>Total = 0, PartSetHeader.Hash = []\<rparr>\<rparr>,
        Timestamp = Header_Time h,
        ValidatorAddress = ProposerAddress h,
        ValidatorIndex = 0\<rparr>"
    by (simp add: MakeCometBFTVote_def MakeCometBFTVote_vote_def)
next
  assume "unat (Header_Height h) < 2 ^ 63"
  then show "Vote.Height (MakeCometBFTVote_vote hash h) = uint (Header_Height h)"
    by (simp add: MakeCometBFTVote_vote_def sint_eq_uint_64)
next
  assume "2 ^ 63 \<le> unat (Header_Height h)"
  then show "Vote.Height (MakeCometBFTVote_vote hash h) = uint (Header_Height h) - 2 ^ 64"
    by (simp add: MakeCometBFTVote_vote_def sint_64_high)
qed

text \<open>
  C3, amended, at the example header (height 5, so the vote's height is 5; with
  the stand-in encoder the bytes are the validator address, twenty bytes
  \<^verbatim>\<open>0xAA\<close>) and at the header of height \<open>2\<^sup>6\<^sup>3\<close>.
\<close>

theorem MakeCometBFTVote_builds_vote_witness:
  "unat (Header_Height example_Header) < 2 ^ 63
   \<and> Vote.Height (MakeCometBFTVote_vote example_hash example_Header) = 5
   \<and> MakeCometBFTVote example_hash example_voteSignBytes example_Header = replicate 20 0xAA
   \<and> 2 ^ 63 \<le> unat (Header_Height
        (zero_Header\<lparr>BaseHeader := \<lparr>Height = 9223372036854775808, Time = 0, ChainID = []\<rparr>\<rparr>))
   \<and> Vote.Height (MakeCometBFTVote_vote example_hash
        (zero_Header\<lparr>BaseHeader := \<lparr>Height = 9223372036854775808, Time = 0, ChainID = []\<rparr>\<rparr>))
      = 9223372036854775808 - 2 ^ 64"
  using MakeCometBFTVote_builds_vote [of example_hash example_voteSignBytes example_Header]
    MakeCometBFTVote_builds_vote [of example_hash example_voteSignBytes
      "zero_Header\<lparr>BaseHeader := \<lparr>Height = 9223372036854775808, Time = 0, ChainID = []\<rparr>\<rparr>"]
  by (simp add: example_Header_def Header_Height_def example_voteSignBytes_def)

text \<open>
  What the file itself decides about the sensitivity of the encoded vote: two
  headers that differ in height, in proposer address or in content hash give
  different votes to the encoder. Whether the encoded bytes differ is up to the
  encoder.
\<close>

lemma MakeCometBFTVote_vote_sensitive:
  assumes "Header_Height h \<noteq> Header_Height h' \<or> ProposerAddress h \<noteq> ProposerAddress h'
    \<or> hash h \<noteq> hash h'"
  shows "MakeCometBFTVote_vote hash h \<noteq> MakeCometBFTVote_vote hash h'"
proof
  assume eq: "MakeCometBFTVote_vote hash h = MakeCometBFTVote_vote hash h'"
  then have "Vote.Height (MakeCometBFTVote_vote hash h) = Vote.Height (MakeCometBFTVote_vote hash h')"
    by simp
  then have "sint (Header_Height h) = sint (Header_Height h')"
    by (simp add: MakeCometBFTVote_vote_def)
  then have 1: "Header_Height h = Header_Height h'" by (rule sint_inj_64)
  from eq have "ValidatorAddress (MakeCometBFTVote_vote hash h)
      = ValidatorAddress (MakeCometBFTVote_vote hash h')"
    by simp
  then have 2: "ProposerAddress h = ProposerAddress h'"
    by (simp add: MakeCometBFTVote_vote_def)
  from eq have "BlockID.Hash (BlockID (MakeCometBFTVote_vote hash h))
      = BlockID.Hash (BlockID (MakeCometBFTVote_vote hash h'))"
    by simp
  then have 3: "hash h = hash h'"
    by (simp add: MakeCometBFTVote_vote_def)
  from assms 1 2 3 show False by simp
qed

text \<open>
  The encoded vote depends on the header through its chain ID, height, time,
  proposer address and content hash only.
\<close>

lemma MakeCometBFTVote_determined_by:
  assumes "Header_ChainID h = Header_ChainID h'"
    and "Header_Height h = Header_Height h'"
    and "Time (BaseHeader h) = Time (BaseHeader h')"
    and "ProposerAddress h = ProposerAddress h'"
    and "hash h = hash h'"
  shows "MakeCometBFTVote hash voteSignBytes h = MakeCometBFTVote hash voteSignBytes h'"
  using assms by (simp add: MakeCometBFTVote_def MakeCometBFTVote_vote_def Header_Time_def)

text \<open>
  If the encoder tells apart votes of different height or block hash, and the
  digest tells apart headers of different proposer address, then headers that
  differ in height, proposer address or content hash are encoded differently.
  Neither condition can be read off \<^verbatim>\<open>header.go\<close>.
\<close>

lemma MakeCometBFTVote_sensitive_if:
  assumes enc: "\<And>c v c' v'. voteSignBytes c v = voteSignBytes c' v' \<Longrightarrow>
      Vote.Height v = Vote.Height v' \<and> BlockID.Hash (BlockID v) = BlockID.Hash (BlockID v')"
    and dig: "\<And>a b. hash a = hash b \<Longrightarrow> ProposerAddress a = ProposerAddress b"
    and diff: "Header_Height h \<noteq> Header_Height h' \<or> ProposerAddress h \<noteq> ProposerAddress h'
      \<or> hash h \<noteq> hash h'"
  shows "MakeCometBFTVote hash voteSignBytes h \<noteq> MakeCometBFTVote hash voteSignBytes h'"
proof
  assume "MakeCometBFTVote hash voteSignBytes h = MakeCometBFTVote hash voteSignBytes h'"
  then have "voteSignBytes (Header_ChainID h) (MakeCometBFTVote_vote hash h)
      = voteSignBytes (Header_ChainID h') (MakeCometBFTVote_vote hash h')"
    by (simp add: MakeCometBFTVote_def)
  from enc [OF this] have "sint (Header_Height h) = sint (Header_Height h')"
    and 3: "hash h = hash h'"
    by (simp_all add: MakeCometBFTVote_vote_def)
  then have 1: "Header_Height h = Header_Height h'" by (simp add: sint_inj_64)
  from dig [OF 3] have 2: "ProposerAddress h = ProposerAddress h'" .
  from diff 1 2 3 show False by simp
qed

section \<open>Nil receivers and the store\<close>

text \<open>
  C7: \<^verbatim>\<open>IsZero\<close> returns on every pointer, the nil pointer included, where it
  returns true; it returns false on the address of any header, the header with
  all fields zero included; so it returns true exactly on the nil pointer.
\<close>

theorem IsZero_iff_nil:
  "fst (IsZero s None) = Returns True
   \<and> fst (IsZero s (Some a)) = Returns False
   \<and> fst (IsZero (s(a := zero_Header)) (Some a)) = Returns False
   \<and> fst (IsZero s h) = Returns (h = None)
   \<and> fst (IsZero s h) \<noteq> NilDereference"
  by (simp add: IsZero_def)

text \<open>The other methods read a field of the receiver and panic on the nil pointer.\<close>

lemma ptr_methods_nil:
  "fst (ptr_ValidateBasic s None) = NilDereference"
  "fst (ptr_Validate s None) = NilDereference"
  "fst (ptr_Verify s None c) = NilDereference"
  "fst (ptr_Verify s h None) = NilDereference"
  "fst (ptr_MakeCometBFTVote hash voteSignBytes s None) = NilDereference"
  "fst (ptr_ChainID s None) = NilDereference"
  "fst (ptr_Height s None) = NilDereference"
  "fst (ptr_Time s None) = NilDereference"
  "fst (ptr_LastHeader s None) = NilDereference"
  by (simp_all add: ptr_ValidateBasic_def ptr_Validate_def ptr_Verify_def
      ptr_MakeCometBFTVote_def ptr_ChainID_def ptr_Height_def ptr_Time_def
      ptr_LastHeader_def split: option.split)

text \<open>
  C8: no method changes a header. Whatever the store, the receiver and the
  candidate (nil, equal or different), and whether the call returns \<^verbatim>\<open>nil\<close>, an
  error or panics, the store after \<^verbatim>\<open>ValidateBasic\<close>, \<^verbatim>\<open>Validate\<close>, \<^verbatim>\<open>Verify\<close>,
  \<^verbatim>\<open>MakeCometBFTVote\<close>, \<^verbatim>\<open>ChainID\<close>, \<^verbatim>\<open>Height\<close>, \<^verbatim>\<open>Time\<close>, \<^verbatim>\<open>LastHeader\<close> and
  \<^verbatim>\<open>IsZero\<close> is the store before it, so every field of every header is as it was.
\<close>

theorem methods_leave_store:
  "snd (ptr_ValidateBasic s h) = s
   \<and> snd (ptr_Validate s h) = s
   \<and> snd (ptr_Verify s h c) = s
   \<and> snd (ptr_MakeCometBFTVote hash voteSignBytes s h) = s
   \<and> snd (ptr_ChainID s h) = s
   \<and> snd (ptr_Height s h) = s
   \<and> snd (ptr_Time s h) = s
   \<and> snd (ptr_LastHeader s h) = s
   \<and> snd (IsZero s h) = s"
  by (simp add: ptr_ValidateBasic_def ptr_Validate_def ptr_Verify_def
      ptr_MakeCometBFTVote_def ptr_ChainID_def ptr_Height_def ptr_Time_def
      ptr_LastHeader_def IsZero_def split: option.split)

end
